theory Spec2Isabelle
  imports Main
begin

section \<open>Data model (backend/models.py, the request schemas, the errors)\<close>

text \<open>
  The rows of table \<open>users\<close> (class \<open>User\<close> of models.py). A column named \<open>id\<close> is
  written \<open>id'\<close>, \<open>id\<close> being the identity function of HOL. Python's integers are
  unbounded, so a key is an \<open>int\<close>. Field names that several records share are
  written with the record's name in front (\<open>User.email\<close>).
\<close>

record User =
  id' :: int
  name :: string
  email :: string
  phone :: string
  password_hash :: string
  is_admin :: bool

text \<open>
  The other three tables, which \<open>clear_all\<close> empties. A \<open>DateTime\<close> column is the number
  of seconds since the epoch, a nullable column an option; the column \<open>text\<close> is
  written \<open>text'\<close>.
\<close>

record Review =
  id' :: int
  user_id :: "int option"
  guest_name :: "string option"
  guest_phone :: "string option"
  rating :: int
  text' :: string
  created_at :: int
  admin_reply :: "string option"

record Question =
  id' :: int
  user_id :: "int option"
  guest_name :: "string option"
  guest_phone :: "string option"
  text' :: string
  created_at :: int
  admin_reply :: "string option"
  is_read :: bool

record Specialist =
  id' :: int
  name :: string
  position :: string
  specialization :: "string option"
  workplace :: "string option"
  education :: "string option"
  extra_qual :: "string option"
  photo :: "string option"
  created_at :: int
  updated_at :: int

text \<open>
  The committed content of the database, one list of rows per table, in storage order
  (the order in which \<open>Query.first()\<close>, which has no \<open>ORDER BY\<close>, meets the rows).
\<close>

record database =
  users :: "User list"
  reviews :: "Review list"
  questions :: "Question list"
  specialists :: "Specialist list"

text \<open>
  The body of the two registration requests: the fields of \<open>schemas.UserCreate\<close> that
  auth.py reads. The record is extensible: whatever else a payload carries (an
  \<open>is_admin\<close> flag, say) sits in the extension, which the handlers are polymorphic in.
\<close>

record UserCreate =
  name :: string
  email :: string
  phone :: string
  password :: string

text \<open>The two fields of \<open>OAuth2PasswordRequestForm\<close> that the login handlers read.\<close>

record OAuth2PasswordRequestForm =
  username :: string
  password :: string


text \<open>
  What a handler can raise: \<open>HTTPException(status_code=n)\<close> (the \<open>detail\<close> text, which no
  property here depends on, is left out), the \<open>ValueError\<close> of \<open>int()\<close> (passlib's
  error for a malformed hash is a \<open>ValueError\<close> too), the \<open>OverflowError\<close> of the
  database driver, and the other exceptions that leave the password library.
\<close>

datatype error =
    HTTPException nat
  | ValueError
  | OverflowError
  | UnknownHashError
  | PasswordValueError

text \<open>The reasons for which \<open>jose.jwt.decode\<close> raises a \<open>JWTError\<close>.\<close>

datatype JWTError = Malformed | Expired | InvalidSignature

text \<open>A value of a JWT claim: a string (\<open>sub\<close>) or an integer (\<open>exp\<close>, as a timestamp).\<close>

datatype claim = CStr string | CInt int

type_synonym claims = "string \<rightharpoonup> claim"

text \<open>
  The module-level configuration of auth.py and the two libraries behind it, as
  parameters of the model: \<open>SECRET_KEY\<close> comes from the process environment,
  \<open>pwd_context\<close> is passlib's \<open>CryptContext\<close> (\<open>hash\<close> with the salt it draws, \<open>verify\<close>),
  \<open>jwt\<close> is python-jose (\<open>decode\<close> reads the clock for the expiry check, so it takes the
  current time, in seconds since the epoch).
\<close>

record env =
  SECRET_KEY :: string
  pwd_context_hash :: "string \<Rightarrow> error + string"
  pwd_context_verify :: "string \<Rightarrow> string \<Rightarrow> error + bool"
  jwt_encode :: "claims \<Rightarrow> string \<Rightarrow> string \<Rightarrow> string"
  jwt_decode :: "int \<Rightarrow> string \<Rightarrow> string \<Rightarrow> string list \<Rightarrow> JWTError + claims"

definition ALGORITHM :: string where
  "ALGORITHM = ''HS256''"

definition ACCESS_TOKEN_EXPIRE_MINUTES :: int where
  "ACCESS_TOKEN_EXPIRE_MINUTES = 60 * 24 * 7"

section \<open>Python's \<open>str\<close> and \<open>int\<close> between integers and decimal strings\<close>

definition digit_char :: "nat \<Rightarrow> char" where
  "digit_char d = char_of (48 + d)"

fun digits :: "nat \<Rightarrow> string" where
  "digits n = (if n < 10 then [digit_char n] else digits (n div 10) @ [digit_char (n mod 10)])"

declare digits.simps [simp del]

text \<open>\<open>str(i)\<close> for an integer \<open>i\<close>.\<close>

definition py_str :: "int \<Rightarrow> string" where
  "py_str i = (if i < 0 then CHR ''-'' # digits (nat (- i)) else digits (nat i))"

text \<open>
  \<open>int(s)\<close> for a string \<open>s\<close>, \<open>None\<close> where Python raises \<open>ValueError\<close>: white space
  around (tab, line feed, vertical tab, form feed, carriage return, space), an
  optional sign, then decimal digits, where single underscores may stand between two
  digits. This is CPython's rule on ASCII strings. Not modelled: in a string with a
  character beyond ASCII, Python also takes the Unicode spaces and decimal digits;
  and \<open>int\<close> and \<open>str\<close> both refuse a number of more than 4300 digits.
\<close>

definition is_space :: "char \<Rightarrow> bool" where
  "is_space c = (of_char c \<in> {9, 10, 11, 12, 13, 32 :: nat})"

definition is_digit :: "char \<Rightarrow> bool" where
  "is_digit c = (48 \<le> (of_char c :: nat) \<and> (of_char c :: nat) \<le> 57)"

definition digit_val :: "char \<Rightarrow> nat" where
  "digit_val c = of_char c - 48"

definition strip :: "string \<Rightarrow> string" where
  "strip s = rev (dropWhile is_space (rev (dropWhile is_space s)))"

fun parse_digits :: "bool \<Rightarrow> nat \<Rightarrow> string \<Rightarrow> nat option" where
  "parse_digits after_digit acc [] = (if after_digit then Some acc else None)"
| "parse_digits after_digit acc (c # cs) =
     (if is_digit c then parse_digits True (acc * 10 + digit_val c) cs
      else if c = CHR ''_'' \<and> after_digit then parse_digits False acc cs
      else None)"

definition py_int :: "string \<Rightarrow> int option" where
  "py_int s =
     (case strip s of
        [] \<Rightarrow> None
      | c # cs \<Rightarrow>
          if c = CHR ''-'' then map_option (\<lambda>n. - int n) (parse_digits False 0 cs)
          else if c = CHR ''+'' then map_option int (parse_digits False 0 cs)
          else map_option int (parse_digits False 0 (c # cs)))"

section \<open>backend/auth.py\<close>

definition verify_password :: "env \<Rightarrow> string \<Rightarrow> string \<Rightarrow> error + bool" where
  "verify_password e plain_password hashed_password =
     pwd_context_verify e plain_password hashed_password"

definition get_password_hash :: "env \<Rightarrow> string \<Rightarrow> error + string" where
  "get_password_hash e pw = pwd_context_hash e pw"

text \<open>
  \<open>datetime.utcnow()\<close> is the parameter \<open>now\<close>, a \<open>timedelta\<close> is a number of seconds.
  In \<open>expires_delta or timedelta(...)\<close> a delta of zero is falsy, as \<open>None\<close> is.
\<close>

definition create_access_token :: "env \<Rightarrow> int \<Rightarrow> claims \<Rightarrow> int option \<Rightarrow> string" where
  "create_access_token e now data expires_delta =
     (let to_encode = data;
          expire = now + (case expires_delta of
                            None \<Rightarrow> ACCESS_TOKEN_EXPIRE_MINUTES * 60
                          | Some d \<Rightarrow> if d = 0 then ACCESS_TOKEN_EXPIRE_MINUTES * 60 else d);
          to_encode = to_encode(''exp'' \<mapsto> CInt expire)
      in jwt_encode e to_encode (SECRET_KEY e) ALGORITHM)"

text \<open>\<open>db.query(User).filter(User.email == email).first()\<close>\<close>

definition get_user_by_email :: "database \<Rightarrow> string \<Rightarrow> User option" where
  "get_user_by_email db em = find (\<lambda>u. User.email u = em) (users db)"

text \<open>
  The key that the database gives a new row of \<open>users\<close> at \<open>commit\<close>: one more than the
  largest key in the table, 1 in an empty table (SQLite's rule for an
  \<open>INTEGER PRIMARY KEY\<close>). Not modelled: when the largest key is the largest 64-bit
  integer, SQLite tries free keys at random.
\<close>

fun max_id :: "User list \<Rightarrow> int" where
  "max_id [] = 0"
| "max_id [u] = User.id' u"
| "max_id (u # us) = max (User.id' u) (max_id us)"

definition next_id :: "database \<Rightarrow> int" where
  "next_id db = max_id (users db) + 1"

text \<open>\<open>db.add(db_user); db.commit(); db.refresh(db_user)\<close>\<close>

definition add_user :: "database \<Rightarrow> User \<Rightarrow> User \<times> database" where
  "add_user db u =
     (let db_user = u\<lparr>User.id' := next_id db\<rparr>
      in (db_user, db\<lparr>users := users db @ [db_user]\<rparr>))"

text \<open>
  A handler that writes returns its result and the database it leaves; an exception
  raised before \<open>db.commit()\<close> leaves the database as it was.
\<close>

definition register ::
  "env \<Rightarrow> 'a UserCreate_scheme \<Rightarrow> database \<Rightarrow> (error + User) \<times> database" where
  "register e user db =
     (case get_user_by_email db (UserCreate.email user) of
        Some _ \<Rightarrow> (Inl (HTTPException 400), db)
      | None \<Rightarrow>
          (case get_password_hash e (UserCreate.password user) of
             Inl err \<Rightarrow> (Inl err, db)
           | Inr h \<Rightarrow>
               (case add_user db
                  \<lparr>User.id' = 0, User.name = UserCreate.name user,
                   User.email = UserCreate.email user, User.phone = UserCreate.phone user,
                   password_hash = h, is_admin = False\<rparr> of
                  (db_user, db') \<Rightarrow> (Inr db_user, db'))))"

definition register_admin ::
  "env \<Rightarrow> 'a UserCreate_scheme \<Rightarrow> database \<Rightarrow> (error + User) \<times> database" where
  "register_admin e user db =
     (case get_user_by_email db (UserCreate.email user) of
        Some _ \<Rightarrow> (Inl (HTTPException 400), db)
      | None \<Rightarrow>
          if UserCreate.email user \<noteq> ''admin@biosfera.ru'' then (Inl (HTTPException 403), db)
          else
            (case get_password_hash e (UserCreate.password user) of
               Inl err \<Rightarrow> (Inl err, db)
             | Inr h \<Rightarrow>
                 (case add_user db
                    \<lparr>User.id' = 0, User.name = UserCreate.name user,
                     User.email = UserCreate.email user, User.phone = UserCreate.phone user,
                     password_hash = h, is_admin = True\<rparr> of
                    (db_user, db') \<Rightarrow> (Inr db_user, db'))))"



text \<open>
  \<open>credentials_exception\<close> is the 401. \<open>payload.get("sub")\<close> is \<open>None\<close> for a payload
  without the key. \<open>int(user_id)\<close> stands after the \<open>try\<close> block: on a string it is
  \<open>py_int\<close>, whose \<open>ValueError\<close> nothing catches; on an integer it is the integer.
  The driver refuses to bind a key beyond 64 bits, with an \<open>OverflowError\<close> that
  nothing catches either; no stored row has such a key, so the model tests the range
  where the lookup found no row.
\<close>

definition credentials_exception :: error where
  "credentials_exception = HTTPException 401"

definition get_current_user :: "env \<Rightarrow> int \<Rightarrow> string \<Rightarrow> database \<Rightarrow> error + User" where
  "get_current_user e now token db =
     (case jwt_decode e now token (SECRET_KEY e) [ALGORITHM] of
        Inl _ \<Rightarrow> Inl credentials_exception
      | Inr payload \<Rightarrow>
          (case payload ''sub'' of
             None \<Rightarrow> Inl credentials_exception
           | Some sub \<Rightarrow>
               (case (case sub of CStr s \<Rightarrow> py_int s | CInt i \<Rightarrow> Some i) of
                  None \<Rightarrow> Inl ValueError
                | Some uid \<Rightarrow>
                    (case find (\<lambda>u. User.id' u = uid) (users db) of
                       None \<Rightarrow>
                         if uid < - (2 ^ 63) \<or> 2 ^ 63 \<le> uid then Inl OverflowError
                         else Inl credentials_exception
                     | Some user \<Rightarrow> Inr user))))"

section \<open>backend/main.py: the bulk deletion\<close>

record StatusResponse =
  status :: string

text \<open>
  Four \<open>db.query(T).delete()\<close> and a commit; the handler returns \<open>{"status": "ok"}\<close>.
\<close>

definition clear_all :: "database \<Rightarrow> StatusResponse \<times> database" where
  "clear_all db =
     (let db = db\<lparr>reviews := []\<rparr>;
          db = db\<lparr>questions := []\<rparr>;
          db = db\<lparr>users := []\<rparr>;
          db = db\<lparr>specialists := []\<rparr>
      in (\<lparr>status = ''ok''\<rparr>, db))"

text \<open>
  The route \<open>@app.post("/admin/clear_all")\<close>. The handler declares no parameter and no
  dependency, so nothing of the request reaches it; of the request, the model keeps
  the \<open>Authorization\<close> header, absent or present.
\<close>

record Request =
  authorization :: "string option"

definition post_admin_clear_all ::
  "'a Request_scheme \<Rightarrow> database \<Rightarrow> (error + StatusResponse) \<times> database" where
  "post_admin_clear_all request db = (case clear_all db of (r, db') \<Rightarrow> (Inr r, db'))"

section \<open>backend/create_admin.py\<close>

text \<open>
  Assigning to an attribute of a loaded row changes, at the next flush, the row with
  that primary key.
\<close>

definition update_user :: "database \<Rightarrow> int \<Rightarrow> (User \<Rightarrow> User) \<Rightarrow> database" where
  "update_user db i f = db\<lparr>users := map (\<lambda>u. if User.id' u = i then f u else u) (users db)\<rparr>"

text \<open>
  The script returns nothing; its result is the database it leaves (what it prints is
  left out). Any exception is caught and the session rolled back, which leaves the
  database as the script found it; the call in the \<open>try\<close> block that the model lets
  fail is \<open>get_password_hash\<close>.
\<close>

definition create_admin :: "env \<Rightarrow> database \<Rightarrow> database" where
  "create_admin e db0 =
     (let admin_email = ''admin@biosphere.ru'';
          admin_password = ''ADMINBIO'';
          existing_admin = find is_admin (users db0);
          db = (case existing_admin of
                  None \<Rightarrow> db0
                | Some a \<Rightarrow>
                    if User.email a \<noteq> admin_email
                    then update_user db0 (User.id' a) (\<lambda>u. u\<lparr>is_admin := False\<rparr>)
                    else db0);
          existing_user = find (\<lambda>u. User.email u = admin_email) (users db)
      in case get_password_hash e admin_password of
           Inl _ \<Rightarrow> db0
         | Inr h \<Rightarrow>
             (case existing_user of
                Some x \<Rightarrow>
                  update_user db (User.id' x)
                    (\<lambda>u. u\<lparr>is_admin := True, password_hash := h,
                            User.name := ''Admin'', User.phone := ''0000000000''\<rparr>)
              | None \<Rightarrow>
                  snd (add_user db
                         \<lparr>User.id' = 0, User.name = ''Admin'', User.email = admin_email,
                          User.phone = ''0000000000'', password_hash = h,
                          is_admin = True\<rparr>)))"

section \<open>Stand-ins for the two libraries, to run the handlers on concrete inputs\<close>

text \<open>
  passlib: \<open>CryptContext.verify\<close> first identifies the scheme of the stored string and
  raises \<open>UnknownHashError\<close> when no configured scheme claims it; the one scheme
  configured is bcrypt, which claims the strings that start with one of its
  identifiers. A string that bcrypt claims is then parsed, with a \<open>ValueError\<close> when it
  does not have the shape of a bcrypt hash (identifier, two digits of cost, \<open>$\<close>, 22
  characters of salt and 31 of digest), and a password with a NUL character is
  refused. The digest itself is not computed here: the stand-in digest is the
  password, cut or filled up to 31 characters of the bcrypt alphabet, and the salt
  is always the same.
\<close>

definition bcrypt64 :: string where
  "bcrypt64 = ''./ABCDEFGHIJKLMNOPQRSTUVWXYZabcdefghijklmnopqrstuvwxyz0123456789''"


definition bcrypt_ident_values :: "string list" where
  "bcrypt_ident_values = [''$2$'', ''$2a$'', ''$2x$'', ''$2y$'', ''$2b$'']"

definition bcrypt_identify :: "string \<Rightarrow> bool" where
  "bcrypt_identify h = list_ex (\<lambda>i. take (length i) h = i) bcrypt_ident_values"

definition bcrypt_well_formed :: "string \<Rightarrow> bool" where
  "bcrypt_well_formed h =
     (case find (\<lambda>i. take (length i) h = i) bcrypt_ident_values of
        None \<Rightarrow> False
      | Some i \<Rightarrow>
          i \<noteq> ''$2x$'' \<and>
          (let t = drop (length i) h
           in length t = 56 \<and> list_all is_digit (take 2 t) \<and> take 1 (drop 2 t) = ''$'' \<and>
              list_all (\<lambda>c. c \<in> set bcrypt64) (drop 3 t)))"

definition demo_salt :: string where
  "demo_salt = ''saltsaltsaltsaltsalt..''"

definition demo_digest :: "string \<Rightarrow> string" where
  "demo_digest pw =
     take 31 (map (\<lambda>c. if c \<in> set bcrypt64 then c else CHR ''.'') pw @
              ''...............................'')"

definition demo_hash :: "string \<Rightarrow> error + string" where
  "demo_hash pw =
     (if CHR 0x00 \<in> set pw then Inl PasswordValueError
      else Inr (''$2b$12$'' @ demo_salt @ demo_digest pw))"

definition demo_verify :: "string \<Rightarrow> string \<Rightarrow> error + bool" where
  "demo_verify pw h =
     (if \<not> bcrypt_identify h then Inl UnknownHashError
      else if \<not> bcrypt_well_formed h then Inl ValueError
      else if CHR 0x00 \<in> set pw then Inl PasswordValueError
      else Inr (drop (length h - 31) h = demo_digest pw))"

text \<open>
  python-jose: the stand-in token is \<open>key.sub.exp\<close>, in clear; decoding checks the key,
  parses the expiry, when the token has one, and compares it with the clock.
\<close>

definition demo_encode :: "claims \<Rightarrow> string \<Rightarrow> string \<Rightarrow> string" where
  "demo_encode c key alg =
     key @ ''.'' @ (case c ''sub'' of Some (CStr s) \<Rightarrow> s | _ \<Rightarrow> [])
         @ ''.'' @ (case c ''exp'' of Some (CInt t) \<Rightarrow> py_str t | _ \<Rightarrow> [])"

definition demo_decode :: "int \<Rightarrow> string \<Rightarrow> string \<Rightarrow> string list \<Rightarrow> JWTError + claims" where
  "demo_decode now token key algs =
     (if take (length key + 1) token \<noteq> key @ ''.'' then Inl InvalidSignature
      else
        (let body = drop (length key + 1) token;
             s = takeWhile (\<lambda>c. c \<noteq> CHR ''.'') body;
             t = drop (length s + 1) body
         in if t = [] then Inr [''sub'' \<mapsto> CStr s]
            else
              (case py_int t of
                 None \<Rightarrow> Inl Malformed
               | Some x \<Rightarrow>
                   if x < now then Inl Expired
                   else Inr [''sub'' \<mapsto> CStr s, ''exp'' \<mapsto> CInt x])))"

definition demo_env :: env where
  "demo_env = \<lparr>SECRET_KEY = ''supersecret'', pwd_context_hash = demo_hash,
                pwd_context_verify = demo_verify, jwt_encode = demo_encode,
                jwt_decode = demo_decode\<rparr>"

definition empty_db :: database where
  "empty_db = \<lparr>users = [], reviews = [], questions = [], specialists = []\<rparr>"

text \<open>
  Example data: a sign-up request that carries an extra flag set to \<open>True\<close> and the row
  it creates; the request for the sentinel address and the row it creates after
  alice; the row that the bootstrap script creates in an empty table.
\<close>

definition alice_request :: "bool UserCreate_scheme" where
  "alice_request = \<lparr>UserCreate.name = ''A'', UserCreate.email = ''a@x.com'',
                     UserCreate.phone = ''1'', UserCreate.password = ''pw1'', \<dots> = True\<rparr>"

definition alice :: User where
  "alice = \<lparr>User.id' = 1, User.name = ''A'', User.email = ''a@x.com'', User.phone = ''1'',
             password_hash = ''$2b$12$saltsaltsaltsaltsalt..pw1............................'',
             is_admin = False\<rparr>"

definition admin_request :: UserCreate where
  "admin_request = \<lparr>UserCreate.name = ''Root'', UserCreate.email = ''admin@biosfera.ru'',
                     UserCreate.phone = ''2'', UserCreate.password = ''root''\<rparr>"

definition root :: User where
  "root = \<lparr>User.id' = 2, User.name = ''Root'', User.email = ''admin@biosfera.ru'',
            User.phone = ''2'',
            password_hash = ''$2b$12$saltsaltsaltsaltsalt..root...........................'',
            is_admin = True\<rparr>"

definition bootstrap_admin :: User where
  "bootstrap_admin =
     \<lparr>User.id' = 1, User.name = ''Admin'', User.email = ''admin@biosphere.ru'',
      User.phone = ''0000000000'',
      password_hash = ''$2b$12$saltsaltsaltsaltsalt..ADMINBIO.......................'',
      is_admin = True\<rparr>"

definition db_alice :: database where
  "db_alice = empty_db\<lparr>users := [alice]\<rparr>"

definition db_alice_root :: database where
  "db_alice_root = empty_db\<lparr>users := [alice, root]\<rparr>"

definition db_bootstrapped :: database where
  "db_bootstrapped = empty_db\<lparr>users := [bootstrap_admin]\<rparr>"

section \<open>\<open>int(str(i))\<close> is \<open>i\<close>\<close>

lemma of_char_digit_char: "d < 10 \<Longrightarrow> of_char (digit_char d) = 48 + d"
  by (simp add: digit_char_def)

lemma is_digit_digit_char: "d < 10 \<Longrightarrow> is_digit (digit_char d)"
  by (simp add: is_digit_def of_char_digit_char)

lemma digit_val_digit_char: "d < 10 \<Longrightarrow> digit_val (digit_char d) = d"
  by (simp add: digit_val_def of_char_digit_char)

lemma is_digit_not_space: "is_digit c \<Longrightarrow> \<not> is_space c"
  by (auto simp: is_digit_def is_space_def)

lemma is_digit_not_sign: "is_digit c \<Longrightarrow> c \<noteq> CHR ''-'' \<and> c \<noteq> CHR ''+''"
  by (auto simp: is_digit_def)

lemma digits_all_digit: "c \<in> set (digits n) \<Longrightarrow> is_digit c"
proof (induction n rule: digits.induct)
  case (1 n)
  show ?case
  proof (cases "n < 10")
    case True
    with "1.prems" show ?thesis
      by (simp add: digits.simps [of n] is_digit_digit_char)
  next
    case False
    with "1.prems" "1.IH" show ?thesis
      by (auto simp: digits.simps [of n] is_digit_digit_char)
  qed
qed

lemma digits_not_Nil: "digits n \<noteq> []"
  by (subst digits.simps) simp

lemma parse_digits_digits:
  "parse_digits b acc (digits n @ rest) =
     parse_digits True (acc * 10 ^ length (digits n) + n) rest"
proof (induction n arbitrary: b acc rest rule: digits.induct)
  case (1 n)
  show ?case
  proof (cases "n < 10")
    case True
    then show ?thesis
      by (simp add: digits.simps [of n] is_digit_digit_char digit_val_digit_char)
  next
    case False
    have d: "n mod 10 < 10" by simp
    have "parse_digits b acc (digits n @ rest) =
            parse_digits b acc (digits (n div 10) @ digit_char (n mod 10) # rest)"
      using False by (simp add: digits.simps [of n])
    also have "\<dots> = parse_digits True (acc * 10 ^ length (digits (n div 10)) + n div 10)
                       (digit_char (n mod 10) # rest)"
      using False by (rule "1.IH")
    also have "\<dots> = parse_digits True
                       ((acc * 10 ^ length (digits (n div 10)) + n div 10) * 10 + n mod 10) rest"
      using d by (simp add: is_digit_digit_char digit_val_digit_char)
    also have "(acc * 10 ^ length (digits (n div 10)) + n div 10) * 10 + n mod 10 =
               acc * 10 ^ length (digits n) + n"
      using False by (simp add: digits.simps [of n] algebra_simps)
    finally show ?thesis .
  qed
qed

lemma parse_digits_digits_all: "parse_digits False 0 (digits n) = Some n"
  using parse_digits_digits [of False 0 n "[]"] by simp

lemma dropWhile_none: "(\<And>c. c \<in> set s \<Longrightarrow> \<not> P c) \<Longrightarrow> dropWhile P s = s"
  by (cases s) auto

lemma strip_no_space:
  assumes "\<And>c. c \<in> set s \<Longrightarrow> \<not> is_space c"
  shows "strip s = s"
proof -
  have "dropWhile is_space s = s"
    using assms by (rule dropWhile_none)
  moreover have "dropWhile is_space (rev s) = rev s"
    by (rule dropWhile_none) (simp add: assms)
  ultimately show ?thesis
    by (simp add: strip_def)
qed

lemma py_str_no_space:
  assumes "c \<in> set (py_str i)"
  shows "\<not> is_space c"
proof -
  from assms have "c = CHR ''-'' \<or> is_digit c"
    by (auto simp: py_str_def dest: digits_all_digit split: if_splits)
  then show ?thesis
  proof
    assume "c = CHR ''-''"
    then show ?thesis by (simp add: is_space_def)
  next
    assume "is_digit c"
    then show ?thesis by (rule is_digit_not_space)
  qed
qed

lemma py_int_py_str: "py_int (py_str i) = Some i"
proof -
  have s: "strip (py_str i) = py_str i"
    by (rule strip_no_space) (rule py_str_no_space)
  show ?thesis
  proof (cases "i < 0")
    case True
    then show ?thesis
      by (simp add: py_int_def s) (simp add: py_str_def parse_digits_digits_all)
  next
    case False
    obtain c cs where d: "digits (nat i) = c # cs"
      using digits_not_Nil [of "nat i"] by (cases "digits (nat i)") auto
    then have "is_digit c"
      using digits_all_digit [of c "nat i"] by simp
    then have "c \<noteq> CHR ''-''" "c \<noteq> CHR ''+''"
      using is_digit_not_sign by auto
    moreover have "parse_digits False 0 (c # cs) = Some (nat i)"
      using parse_digits_digits_all [of "nat i"] d by simp
    ultimately show ?thesis
      using False d by (simp add: py_int_def s) (simp add: py_str_def)
  qed
qed

section \<open>Lemmas on the tables and on the stand-ins\<close>

lemma demo_hash_values:
  "demo_hash ''pw1'' = Inr ''$2b$12$saltsaltsaltsaltsalt..pw1............................''"
  "demo_hash ''root'' = Inr ''$2b$12$saltsaltsaltsaltsalt..root...........................''"
  "demo_hash ''ADMINBIO'' = Inr ''$2b$12$saltsaltsaltsaltsalt..ADMINBIO.......................''"
  by (simp_all add: demo_hash_def demo_salt_def demo_digest_def bcrypt64_def)

lemma demo_verify_values:
  "demo_verify ''pw1'' ''$2b$12$saltsaltsaltsaltsalt..pw1............................'' = Inr True"
  "demo_verify ''root'' ''$2b$12$saltsaltsaltsaltsalt..root...........................'' = Inr True"
  "demo_verify ''wrong'' ''$2b$12$saltsaltsaltsaltsalt..pw1............................'' = Inr False"
  "demo_verify ''wrong'' ''$2b$12$saltsaltsaltsaltsalt..root...........................'' = Inr False"
  "demo_verify ''pw1'' ''$2b$12$saltsaltsaltsaltsalt..root...........................'' = Inr False"
  "demo_verify ''pw1'' ''$2b$pw1'' = Inl ValueError"
  "demo_verify ''pw1'' ''not-a-hash'' = Inl UnknownHashError"
  by (simp_all add: demo_verify_def bcrypt_identify_def bcrypt_well_formed_def
      bcrypt_ident_values_def demo_digest_def bcrypt64_def is_digit_def)

lemmas demo_simps =
  demo_env_def demo_hash_values demo_verify_values
  empty_db_def alice_def root_def alice_request_def admin_request_def db_alice_def
  db_alice_root_def get_user_by_email_def get_password_hash_def verify_password_def
  add_user_def next_id_def Let_def

lemmas py_simps =
  py_str_def py_int_def strip_def is_space_def is_digit_def digit_val_def digits.simps
  digit_char_def

lemma digit_chars [simp]:
  "char_of (48::nat) = CHR ''0''" "char_of (49::nat) = CHR ''1''" "char_of (50::nat) = CHR ''2''"
  "char_of (51::nat) = CHR ''3''" "char_of (52::nat) = CHR ''4''" "char_of (53::nat) = CHR ''5''"
  "char_of (54::nat) = CHR ''6''" "char_of (55::nat) = CHR ''7''" "char_of (56::nat) = CHR ''8''"
  "char_of (57::nat) = CHR ''9''"
  by (rule of_char_eq_iff [where ?'a = nat, THEN iffD1], simp)+

lemma find_holds: "u \<in> set us \<Longrightarrow> P u \<Longrightarrow> \<exists>v. find P us = Some v"
  by (cases "find P us") (auto simp: find_None_iff)

lemma find_unique:
  "a \<in> set us \<Longrightarrow> distinct (map f us) \<Longrightarrow> find (\<lambda>u. f u = f a) us = Some a"
  by (induction us) (auto simp: image_iff)

lemma find_append_skip: "\<forall>x\<in>set xs. \<not> P x \<Longrightarrow> find P (xs @ ys) = find P ys"
  by (induction xs) auto

lemma find_in_set: "find P xs = Some x \<Longrightarrow> x \<in> set xs \<and> P x"
  by (induction xs) (auto split: if_splits)

lemma max_id_ge: "u \<in> set us \<Longrightarrow> User.id' u \<le> max_id us"
  by (induction us rule: max_id.induct) auto

lemma next_id_fresh: "u \<in> set (users db) \<Longrightarrow> User.id' u \<noteq> next_id db"
  using max_id_ge [of u "users db"] by (simp add: next_id_def)

lemma register_alice:
  "register demo_env alice_request empty_db = (Inr alice, db_alice)"
  by (simp add: register_def demo_simps)

lemma register_admin_after_alice:
  "register_admin demo_env admin_request db_alice = (Inr root, db_alice_root)"
  by (simp add: register_admin_def demo_simps)

lemma register_admin_bootstrapped:
  "register_admin demo_env admin_request db_bootstrapped =
     (Inr root, empty_db\<lparr>users := [bootstrap_admin, root]\<rparr>)"
  by (simp add: register_admin_def demo_simps db_bootstrapped_def bootstrap_admin_def)

lemma register_admin_success:
  assumes "register_admin e user db = (Inr u, db')"
  shows "UserCreate.email user = ''admin@biosfera.ru'' \<and> User.email u = ''admin@biosfera.ru'' \<and>
         is_admin u \<and> User.id' u = next_id db \<and> users db' = users db @ [u]"
  using assms
  by (auto simp: register_admin_def add_user_def Let_def get_password_hash_def
           split: option.splits if_splits sum.splits)

section \<open>The unique columns stay unique\<close>

text \<open>
  The primary key \<open>id\<close> and the column \<open>email\<close> are declared unique in models.py.
  Every operation that writes to \<open>users\<close> keeps them so, which is why the
  properties below may take a table with unique keys and emails.
\<close>

lemma next_id_not_key: "next_id db \<notin> User.id' ` set (users db)"
proof
  assume "next_id db \<in> User.id' ` set (users db)"
  then obtain u where "u \<in> set (users db)" and "User.id' u = next_id db"
    by auto
  then show False
    using next_id_fresh by blast
qed

lemma add_user_keys:
  assumes "distinct (map User.id' (users db))"
  shows "distinct (map User.id' (users (snd (add_user db u))))"
  using assms by (simp add: add_user_def Let_def next_id_not_key)

lemma update_user_keys:
  assumes "\<And>u. User.id' (f u) = User.id' u"
  shows "map User.id' (users (update_user db i f)) = map User.id' (users db)"
  by (simp add: update_user_def assms o_def cong: map_cong)

lemma update_user_emails:
  assumes "\<And>u. User.email (f u) = User.email u"
  shows "map User.email (users (update_user db i f)) = map User.email (users db)"
  by (simp add: update_user_def assms o_def cong: map_cong)

lemma register_keeps_keys:
  "distinct (map User.id' (users db)) \<Longrightarrow>
   distinct (map User.id' (users (snd (register e user db)))) \<and>
   distinct (map User.id' (users (snd (register_admin e user db))))"
  by (simp add: register_def register_admin_def add_user_def Let_def next_id_not_key
           split: option.splits sum.splits)

lemma register_keeps_emails:
  "distinct (map User.email (users db)) \<Longrightarrow>
   distinct (map User.email (users (snd (register e user db)))) \<and>
   distinct (map User.email (users (snd (register_admin e user db))))"
  by (auto simp: register_def register_admin_def add_user_def Let_def get_user_by_email_def
           find_None_iff split: option.splits sum.splits)

lemma create_admin_keeps_keys:
  assumes "distinct (map User.id' (users db))"
  shows "distinct (map User.id' (users (create_admin e db)))"
proof -
  have k: "map User.id' (users (update_user d i (\<lambda>u. u\<lparr>is_admin := False\<rparr>))) =
           map User.id' (users d)" for d i
    by (rule update_user_keys) simp
  have p: "map User.id' (users (update_user d i
             (\<lambda>u. u\<lparr>is_admin := True, password_hash := h, User.name := ''Admin'',
                     User.phone := ''0000000000''\<rparr>))) =
           map User.id' (users d)" for d i h
    by (rule update_user_keys) simp
  have a: "distinct (map User.id' (users d)) \<Longrightarrow>
           distinct (map User.id' (users (snd (add_user d u))))" for d u
    by (rule add_user_keys)
  show ?thesis
    using assms
    by (auto simp: create_admin_def Let_def k p intro!: a split: option.splits sum.splits)
qed

lemma create_admin_keeps_emails:
  assumes "distinct (map User.email (users db))"
  shows "distinct (map User.email (users (create_admin e db)))"
proof -
  have k: "map User.email (users (update_user d i (\<lambda>u. u\<lparr>is_admin := False\<rparr>))) =
           map User.email (users d)" for d i
    by (rule update_user_emails) simp
  have p: "map User.email (users (update_user d i
             (\<lambda>u. u\<lparr>is_admin := True, password_hash := h, User.name := ''Admin'',
                     User.phone := ''0000000000''\<rparr>))) =
           map User.email (users d)" for d i h
    by (rule update_user_emails) simp
  have a: "distinct (map User.email (users d)) \<Longrightarrow>
           find (\<lambda>u. User.email u = User.email u') (users d) = None \<Longrightarrow>
           distinct (map User.email (users (snd (add_user d u'))))" for d u'
    by (auto simp: add_user_def Let_def find_None_iff)
  show ?thesis
    using assms
    by (auto simp: create_admin_def Let_def k p intro!: a split: option.splits sum.splits)
qed

section \<open>Registration\<close>

text \<open>
  C1. Whatever the request to \<open>register\<close> carries, the extension of the payload (an
  \<open>is_admin\<close> flag set to true, say) included, an account that \<open>register\<close> creates has
  \<open>is_admin = False\<close>, and it is the one row that the call adds to \<open>users\<close>.
\<close>

theorem register_never_admin:
  assumes "register e user db = (Inr db_user, db')"
  shows "\<not> is_admin db_user \<and> users db' = users db @ [db_user]"
  using assms
  by (auto simp: register_def add_user_def Let_def split: option.splits sum.splits)

theorem register_never_admin_witness:
  "UserCreate.more alice_request = True \<and>
   register demo_env alice_request empty_db = (Inr alice, db_alice) \<and>
   \<not> is_admin alice \<and> users db_alice = users empty_db @ [alice]"
  using register_never_admin [OF register_alice] register_alice
  by (simp add: alice_request_def)

text \<open>
  C8. A registration request whose email is the email of an existing account fails with
  status 400 on the generic path and on the admin path, whatever its other fields, and
  leaves the database as it was.
\<close>

theorem duplicate_email_rejected:
  assumes "u \<in> set (users db)" and "User.email u = UserCreate.email user"
  shows "register e user db = (Inl (HTTPException 400), db) \<and>
         register_admin e user db = (Inl (HTTPException 400), db)"
proof -
  obtain v where "get_user_by_email db (UserCreate.email user) = Some v"
    using find_holds [of u "users db" "\<lambda>x. User.email x = UserCreate.email user"] assms
    by (auto simp: get_user_by_email_def)
  then show ?thesis
    by (simp add: register_def register_admin_def)
qed

theorem duplicate_email_rejected_witness:
  "alice \<in> set (users db_alice) \<and> User.email alice = UserCreate.email alice_request \<and>
   register demo_env alice_request db_alice = (Inl (HTTPException 400), db_alice) \<and>
   register_admin demo_env alice_request db_alice = (Inl (HTTPException 400), db_alice)"
proof -
  have 1: "alice \<in> set (users db_alice)"
    by (simp add: db_alice_def)
  have 2: "User.email alice = UserCreate.email alice_request"
    by (simp add: alice_def alice_request_def)
  from duplicate_email_rejected [OF 1 2, of demo_env] 1 2 show ?thesis
    by simp
qed

text \<open>
  C3, as stated (every admin registration whose email is not the sentinel fails with
  status 403), fails on an email that is already registered: the duplicate check comes
  first and answers 400.
\<close>

theorem register_admin_duplicate_first:
  "UserCreate.email alice_request \<noteq> ''admin@biosfera.ru'' \<and>
   fst (register_admin demo_env alice_request db_alice) = Inl (HTTPException 400)"
  by (simp add: register_admin_def demo_simps)

text \<open>
  C3, amended. An admin registration whose email is not the sentinel address and is
  not the email of an existing account fails with status 403, whatever its other
  fields, and leaves the database as it was.
\<close>

theorem register_admin_forbidden:
  assumes "UserCreate.email user \<noteq> ''admin@biosfera.ru''"
    and "\<forall>u\<in>set (users db). User.email u \<noteq> UserCreate.email user"
  shows "register_admin e user db = (Inl (HTTPException 403), db)"
proof -
  have "get_user_by_email db (UserCreate.email user) = None"
    using assms(2) by (simp add: get_user_by_email_def find_None_iff)
  with assms(1) show ?thesis
    by (simp add: register_admin_def)
qed

theorem register_admin_forbidden_witness:
  "UserCreate.email alice_request \<noteq> ''admin@biosfera.ru'' \<and>
   users empty_db = [] \<and>
   register_admin demo_env alice_request empty_db = (Inl (HTTPException 403), empty_db)"
proof -
  have 1: "UserCreate.email alice_request \<noteq> ''admin@biosfera.ru''"
    by (simp add: alice_request_def)
  have 2: "\<forall>u\<in>set (users empty_db). User.email u \<noteq> UserCreate.email alice_request"
    by (simp add: empty_db_def)
  show ?thesis
    using register_admin_forbidden [OF 1 2, of demo_env] 1 by (simp add: empty_db_def)
qed

section \<open>The two login lanes\<close>



section \<open>Authentication by token\<close>

lemma get_current_user_decode_failure:
  "jwt_decode e now token (SECRET_KEY e) [ALGORITHM] = Inl err \<Longrightarrow>
   get_current_user e now token db = Inl (HTTPException 401)"
  by (simp add: get_current_user_def credentials_exception_def)

lemma get_current_user_errors:
  "get_current_user e now token db = Inl err \<Longrightarrow>
   err = HTTPException 401 \<or> err = ValueError \<or> err = OverflowError"
  by (auto simp: get_current_user_def credentials_exception_def
           split: sum.splits option.splits if_splits)

lemma get_current_user_unparsed_subject:
  "jwt_decode e now token (SECRET_KEY e) [ALGORITHM] = Inr payload \<Longrightarrow>
   payload ''sub'' = Some (CStr s) \<Longrightarrow> py_int s = None \<Longrightarrow>
   get_current_user e now token db = Inl ValueError"
  by (simp add: get_current_user_def)

lemma demo_token:
  "jwt_encode demo_env [''sub'' \<mapsto> CStr (py_str (User.id' alice)),
                        ''exp'' \<mapsto> CInt (0 + 7 * 24 * 60 * 60)] (SECRET_KEY demo_env) ALGORITHM
   = ''supersecret.1.604800''"
  by (simp add: demo_env_def demo_encode_def alice_def py_simps)

lemma demo_decode_token:
  "jwt_decode demo_env 0 ''supersecret.1.604800'' (SECRET_KEY demo_env) [ALGORITHM] =
   Inr [''sub'' \<mapsto> CStr (py_str (User.id' alice)), ''exp'' \<mapsto> CInt (0 + 7 * 24 * 60 * 60)]"
  by (simp add: demo_env_def demo_decode_def alice_def py_simps)

text \<open>
  C2. A token that verifies under the key and whose \<open>sub\<close> claim is the string \<open>abc\<close>
  has a subject that resolves to no account; \<open>get_current_user\<close> answers it with the
  \<open>ValueError\<close> of \<open>int("abc")\<close>, which is raised after the \<open>try\<close> block, and not with
  the 401 of \<open>credentials_exception\<close>.
\<close>

theorem get_current_user_non_numeric_subject:
  "jwt_decode demo_env 0 ''supersecret.abc.604800'' (SECRET_KEY demo_env) [ALGORITHM] =
     Inr [''sub'' \<mapsto> CStr ''abc'', ''exp'' \<mapsto> CInt 604800] \<and>
   get_current_user demo_env 0 ''supersecret.abc.604800'' db_alice = Inl ValueError"
  by (simp add: get_current_user_def demo_env_def demo_decode_def py_simps)

text \<open>
  C5. For an account \<open>a\<close> of a table \<open>users\<close> with unique keys: the token that
  \<open>create_access_token\<close> issues at time \<open>now\<close> for the subject \<open>str(a.id)\<close>, with the
  default expiry of seven days, presented to \<open>get_current_user\<close> at the same time,
  gives back \<open>a\<close>, provided the token library decodes, under the same key and
  algorithm, the payload it has just encoded.
\<close>

theorem issue_authenticate_roundtrip:
  assumes "a \<in> set (users db)"
    and "distinct (map User.id' (users db))"
    and "jwt_decode e now
           (jwt_encode e [''sub'' \<mapsto> CStr (py_str (User.id' a)),
                          ''exp'' \<mapsto> CInt (now + 7 * 24 * 60 * 60)] (SECRET_KEY e) ALGORITHM)
           (SECRET_KEY e) [ALGORITHM] =
         Inr [''sub'' \<mapsto> CStr (py_str (User.id' a)), ''exp'' \<mapsto> CInt (now + 7 * 24 * 60 * 60)]"
  shows "get_current_user e now
           (create_access_token e now [''sub'' \<mapsto> CStr (py_str (User.id' a))] None) db = Inr a"
proof -
  have tok: "create_access_token e now [''sub'' \<mapsto> CStr (py_str (User.id' a))] None =
             jwt_encode e [''sub'' \<mapsto> CStr (py_str (User.id' a)),
                           ''exp'' \<mapsto> CInt (now + 7 * 24 * 60 * 60)] (SECRET_KEY e) ALGORITHM"
    by (simp add: create_access_token_def ACCESS_TOKEN_EXPIRE_MINUTES_def)
  have row: "find (\<lambda>u. User.id' u = User.id' a) (users db) = Some a"
    using assms(1,2) by (rule find_unique)
  show ?thesis
    unfolding tok get_current_user_def assms(3)
    by (simp add: py_int_py_str row)
qed

theorem issue_authenticate_roundtrip_witness:
  "alice \<in> set (users db_alice) \<and> distinct (map User.id' (users db_alice)) \<and>
   create_access_token demo_env 0 [''sub'' \<mapsto> CStr (py_str (User.id' alice))] None =
     ''supersecret.1.604800'' \<and>
   get_current_user demo_env 0 ''supersecret.1.604800'' db_alice = Inr alice"
proof -
  have 1: "alice \<in> set (users db_alice)"
    by (simp add: db_alice_def)
  have 2: "distinct (map User.id' (users db_alice))"
    by (simp add: db_alice_def)
  have 3: "create_access_token demo_env 0 [''sub'' \<mapsto> CStr (py_str (User.id' alice))] None =
           ''supersecret.1.604800''"
    using demo_token by (simp add: create_access_token_def ACCESS_TOKEN_EXPIRE_MINUTES_def)
  have 4: "jwt_decode demo_env 0
           (jwt_encode demo_env [''sub'' \<mapsto> CStr (py_str (User.id' alice)),
                          ''exp'' \<mapsto> CInt (0 + 7 * 24 * 60 * 60)] (SECRET_KEY demo_env) ALGORITHM)
           (SECRET_KEY demo_env) [ALGORITHM] =
         Inr [''sub'' \<mapsto> CStr (py_str (User.id' alice)), ''exp'' \<mapsto> CInt (0 + 7 * 24 * 60 * 60)]"
    unfolding demo_token by (rule demo_decode_token)
  from issue_authenticate_roundtrip [OF 1 2 4] 1 2 3 show ?thesis
    by simp
qed

section \<open>Password verification\<close>



text \<open>
  C6, as stated (\<open>verify_password\<close> never throws and answers false on a malformed
  hash), fails on a stored string that no configured scheme identifies: the context
  raises \<open>UnknownHashError\<close> and \<open>verify_password\<close>, which has no handler, lets it through.
\<close>

theorem verify_password_unknown_hash:
  "verify_password demo_env ''pw1'' ''not-a-hash'' = Inl UnknownHashError"
  by (simp add: demo_simps)

text \<open>
  C6, amended. On every plaintext and every stored string, \<open>verify_password\<close> returns
  the boolean that \<open>pwd_context.verify\<close> returns, and raises what it raises.
\<close>

theorem verify_password_passes_through:
  "(pwd_context_verify e plain hashed = Inr b \<longrightarrow> verify_password e plain hashed = Inr b) \<and>
   (pwd_context_verify e plain hashed = Inl err \<longrightarrow> verify_password e plain hashed = Inl err)"
  by (simp add: verify_password_def)

theorem verify_password_passes_through_witness:
  "password_hash alice = ''$2b$12$saltsaltsaltsaltsalt..pw1............................'' \<and>
   pwd_context_verify demo_env ''pw1'' (password_hash alice) = Inr True \<and>
   verify_password demo_env ''pw1'' (password_hash alice) = Inr True \<and>
   pwd_context_verify demo_env ''wrong'' (password_hash alice) = Inr False \<and>
   verify_password demo_env ''wrong'' (password_hash alice) = Inr False \<and>
   pwd_context_verify demo_env ''pw1'' ''$2b$pw1'' = Inl ValueError \<and>
   verify_password demo_env ''pw1'' ''$2b$pw1'' = Inl ValueError \<and>
   pwd_context_verify demo_env ''pw1'' ''not-a-hash'' = Inl UnknownHashError \<and>
   verify_password demo_env ''pw1'' ''not-a-hash'' = Inl UnknownHashError"
proof -
  have 0: "password_hash alice = ''$2b$12$saltsaltsaltsaltsalt..pw1............................''"
    by (simp add: alice_def)
  have 1: "pwd_context_verify demo_env ''pw1'' (password_hash alice) = Inr True"
    by (simp add: 0 demo_env_def demo_verify_values)
  have 2: "pwd_context_verify demo_env ''wrong'' (password_hash alice) = Inr False"
    by (simp add: 0 demo_env_def demo_verify_values)
  have 3: "pwd_context_verify demo_env ''pw1'' ''$2b$pw1'' = Inl ValueError"
    by (simp add: demo_env_def demo_verify_values)
  have 4: "pwd_context_verify demo_env ''pw1'' ''not-a-hash'' = Inl UnknownHashError"
    by (simp add: demo_env_def demo_verify_values)
  from verify_password_passes_through [of demo_env "''pw1''" "password_hash alice" True]
    verify_password_passes_through [of demo_env "''wrong''" "password_hash alice" False]
    verify_password_passes_through [of demo_env "''pw1''" "''$2b$pw1''" _ ValueError]
    verify_password_passes_through [of demo_env "''pw1''" "''not-a-hash''" _ UnknownHashError]
    0 1 2 3 4
  show ?thesis by simp
qed

section \<open>The bulk deletion\<close>

text \<open>
  C9. For every request, with or without an \<open>Authorization\<close> header, and every
  database, \<open>POST /admin/clear_all\<close> returns status \<open>ok\<close> and leaves the four tables
  empty: no token and no admin flag is looked at.
\<close>

theorem clear_all_unauthenticated:
  "post_admin_clear_all request db =
     (Inr \<lparr>status = ''ok''\<rparr>, \<lparr>users = [], reviews = [], questions = [], specialists = []\<rparr>) \<and>
   post_admin_clear_all \<lparr>authorization = None\<rparr> db =
     (Inr \<lparr>status = ''ok''\<rparr>, \<lparr>users = [], reviews = [], questions = [], specialists = []\<rparr>)"
  by (simp add: post_admin_clear_all_def clear_all_def)

section \<open>The bootstrap script after an admin registration\<close>

text \<open>
  C10, as stated (an account that became admin through \<open>register_admin\<close> is no longer
  admin after \<open>create_admin\<close>), fails when the bootstrap admin is already in the table:
  \<open>create_admin\<close> looks at the first admin row only, finds the bootstrap admin, whose
  email is its own, and demotes nobody.
\<close>

theorem create_admin_keeps_second_admin:
  "fst (register_admin demo_env admin_request db_bootstrapped) = Inr root \<and>
   is_admin root \<and>
   find (\<lambda>u. User.id' u = User.id' root)
     (users (create_admin demo_env (snd (register_admin demo_env admin_request db_bootstrapped))))
   = Some root"
  by (simp add: register_admin_bootstrapped)
     (simp add: create_admin_def update_user_def demo_simps bootstrap_admin_def)

text \<open>
  C10, amended. \<open>register_admin\<close> accepts the address \<open>admin@biosfera.ru\<close>, the script
  uses \<open>admin@biosphere.ru\<close> and demotes the first admin row it finds when that row has
  another email. So an account that became admin through \<open>register_admin\<close> in a table
  without admins is, after a run of \<open>create_admin\<close> in which hashing the bootstrap
  password succeeds, the same row with \<open>is_admin = False\<close>.
\<close>

theorem create_admin_demotes_first_admin:
  assumes none: "\<forall>x\<in>set (users db). \<not> is_admin x"
    and reg: "register_admin e user db = (Inr u, db')"
    and hash: "get_password_hash e ''ADMINBIO'' = Inr h"
  shows "User.email u = ''admin@biosfera.ru'' \<and> is_admin u \<and>
         find (\<lambda>x. User.id' x = User.id' u) (users (create_admin e db')) =
           Some (u\<lparr>is_admin := False\<rparr>)"
proof -
  let ?u' = "u\<lparr>is_admin := False\<rparr>"
  let ?demote = "\<lambda>x. x\<lparr>is_admin := False\<rparr>"
  from register_admin_success [OF reg]
  have em: "User.email u = ''admin@biosfera.ru''" and adm: "is_admin u"
    and uid: "User.id' u = next_id db" and us: "users db' = users db @ [u]"
    by simp_all
  have fresh: "\<forall>x\<in>set (users db). User.id' x \<noteq> User.id' u"
    using next_id_fresh uid by simp
  have first: "find is_admin (users db') = Some u"
    using none adm by (simp add: us find_append_skip)
  have "map (\<lambda>x. if User.id' x = User.id' u then ?demote x else x) (users db) = users db"
    using fresh by (simp add: map_idI)
  then have step1: "users (update_user db' (User.id' u) ?demote) = users db @ [?u']"
    by (simp add: update_user_def us)
  let ?db1 = "update_user db' (User.id' u) ?demote"
  let ?k = "\<lambda>x. User.id' x = User.id' u"
  let ?promote = "\<lambda>x. x\<lparr>is_admin := True, password_hash := h,
                          User.name := ''Admin'', User.phone := ''0000000000''\<rparr>"
  have res: "find ?k (users (create_admin e db')) = Some ?u'"
  proof (cases "find (\<lambda>x. User.email x = ''admin@biosphere.ru'') (users ?db1)")
    case None
    then have "users (create_admin e db') =
                 users db @ [?u'] @
                 [\<lparr>User.id' = next_id ?db1, User.name = ''Admin'',
                   User.email = ''admin@biosphere.ru'', User.phone = ''0000000000'',
                   password_hash = h, is_admin = True\<rparr>]"
      using first em hash by (simp add: create_admin_def add_user_def Let_def step1)
    then show ?thesis
      using fresh by (simp add: find_append_skip)
  next
    case (Some x)
    then have "x \<in> set (users db @ [?u'])" and xe: "User.email x = ''admin@biosphere.ru''"
      using find_in_set [OF Some] by (simp_all add: step1)
    with em have xin: "x \<in> set (users db)"
      by auto
    then have xid: "User.id' x \<noteq> User.id' u"
      using fresh by simp
    let ?g = "\<lambda>r. if User.id' r = User.id' x then ?promote r else r"
    have "users (create_admin e db') = map ?g (users db) @ [?u']"
      using first em hash Some xid
      by (simp add: create_admin_def Let_def update_user_def step1 [unfolded update_user_def])
    moreover have "\<forall>r\<in>set (map ?g (users db)). \<not> ?k r"
      using fresh by auto
    ultimately show ?thesis
      by (simp add: find_append_skip)
  qed
  with em adm show ?thesis by simp
qed

theorem create_admin_demotes_first_admin_witness:
  "register_admin demo_env admin_request db_alice = (Inr root, db_alice_root) \<and>
   get_password_hash demo_env ''ADMINBIO'' = Inr (password_hash bootstrap_admin) \<and>
   User.email root = ''admin@biosfera.ru'' \<and> is_admin root \<and>
   find (\<lambda>x. User.id' x = 2) (users (create_admin demo_env db_alice_root)) =
     Some (root\<lparr>is_admin := False\<rparr>)"
proof -
  have 1: "\<forall>x\<in>set (users db_alice). \<not> is_admin x"
    by (simp add: demo_simps)
  have 2: "get_password_hash demo_env ''ADMINBIO'' = Inr (password_hash bootstrap_admin)"
    by (simp add: demo_simps bootstrap_admin_def)
  have 3: "User.id' root = 2"
    by (simp add: root_def)
  from create_admin_demotes_first_admin [OF 1 register_admin_after_alice 2]
    register_admin_after_alice 2 3
  show ?thesis by simp
qed

end
